theory Spec2Isabelle
  imports Complex_Main
begin

section \<open>Numbers and Python values\<close>

text \<open>
  The strategies compute on Python floats. The embedding uses exact rationals instead:
  every arithmetic step is the exact one, so the theorems below speak about the
  decision logic of the engine and not about binary rounding error. A value that may be
  \<^verbatim>\<open>None\<close> is an \<open>option\<close>.
\<close>

text \<open>
  Python's truth test on an optional number (\<^verbatim>\<open>if self.stop_loss:\<close>,
  \<^verbatim>\<open>if not self.entry_price:\<close>): \<^verbatim>\<open>None\<close> and \<^verbatim>\<open>0.0\<close> are false.
\<close>

definition truthy :: "rat option \<Rightarrow> bool" where
  "truthy v = (case v of None \<Rightarrow> False | Some x \<Rightarrow> x \<noteq> 0)"

text \<open>
  \<^verbatim>\<open>round(x, n)\<close>: the nearest multiple of \<open>10\<^sup>-\<^sup>n\<close>; an exact tie goes to the
  even neighbour.
\<close>

definition round_half_even :: "rat \<Rightarrow> int" where
  "round_half_even x =
     (let f = \<lfloor>x\<rfloor>; d = x - of_int f
      in if d < 1 / 2 then f
         else if 1 / 2 < d then f + 1
         else if even f then f else f + 1)"

definition py_round :: "rat \<Rightarrow> nat \<Rightarrow> rat" where
  "py_round x n = of_int (round_half_even (x * 10 ^ n)) / 10 ^ n"

text \<open>The exceptions the modelled code can raise inside its \<^verbatim>\<open>try\<close> blocks.\<close>

datatype py_error = IndexError | ZeroDivisionError | TypeError

section \<open>The v2 engine: \<^verbatim>\<open>LTCUSD_HighROI_Scalper_v2.py\<close>\<close>

subsection \<open>Configuration, strategy state, and what one bar shows\<close>

text \<open>
  The validated parameters that \<^verbatim>\<open>__init__\<close> stores on the instance, under the
  instance's names; \<open>max_period\<close> is the maximum of the indicator periods computed there.
\<close>

record params =
  rsi_ob :: rat
  rsi_os :: rat
  rsi_mid :: rat
  atr_stop_mult :: rat
  atr_target_mult :: rat
  vol_surge :: rat
  use_trailing :: bool
  trail_activation :: rat
  trail_distance :: rat
  use_partial :: bool
  partial_pct :: rat
  partial_target_mult :: rat
  risk_pct :: rat
  max_size :: rat
  max_daily_loss :: rat
  max_trades :: int
  max_consec_losses :: int
  cooldown_bars :: int
  trade_24h :: bool
  avoid_low_vol :: bool
  low_vol_start :: int
  low_vol_end :: int
  req_volume_surge :: bool
  req_macd :: bool
  allow_bb :: bool
  req_trend :: bool
  min_trend :: rat
  max_period :: nat

text \<open>
  An order handed to the broker: \<^verbatim>\<open>self.buy(size=..)\<close>, \<^verbatim>\<open>self.sell(size=..)\<close>
  or \<^verbatim>\<open>self.close()\<close>.
\<close>

datatype order_intent = Buy rat | Sell rat | Close

text \<open>The mutable attributes of the strategy object. A calendar date is a day number.\<close>

record strategy =
  order :: "order_intent option"
  entry_price :: "rat option"
  stop_loss :: "rat option"
  take_profit :: "rat option"
  partial_target :: "rat option"
  position_closed_partial :: bool
  daily_trades :: int
  daily_pnl :: rat
  last_trade_date :: "int option"
  consecutive_losses :: int
  bars_since_trade :: int
  daily_starting_cash :: "rat option"
  highest_price :: "rat option"
  lowest_price :: "rat option"
  trailing_active :: bool

text \<open>
  What the strategy reads from the framework while it handles one bar: the broker's
  position size and account value, the bar's date and hour, the number of bars seen,
  and the current value of every indicator line. Backtrader calls \<^verbatim>\<open>next\<close> only
  once every indicator has a value, so these reads succeed.
\<close>

record bar =
  position_size :: rat
  broker_value :: rat
  cur_date :: int
  cur_hour :: int
  data_len :: nat
  close_px :: rat
  volume :: rat
  volume_sma :: rat
  ema_fast :: rat
  ema_medium :: rat
  ema_slow :: rat
  rsi :: rat
  macd_line :: rat
  macd_signal :: rat
  bb_top :: rat
  bb_bot :: rat
  atr :: rat
  fast_medium_cross :: rat
  macd_cross :: rat

subsection \<open>Position sizing\<close>

text \<open>
  \<^verbatim>\<open>calculate_position_size\<close>. With the reads succeeding no step of the
  \<^verbatim>\<open>try\<close> body can raise (the only division is guarded by the test
  \<^verbatim>\<open>stop_distance <= 0\<close>), so the \<^verbatim>\<open>except\<close> branch is not reached.
\<close>

definition calculate_position_size :: "params \<Rightarrow> bar \<Rightarrow> rat" where
  "calculate_position_size p b =
     (let atr_value = atr b in
      if atr_value = 0 \<or> atr_value \<le> 0 then 1 / 100
      else
        let account_value = broker_value b in
        if account_value \<le> 0 then 1 / 100
        else
          let risk_amount = account_value * (risk_pct p / 100);
              stop_distance = atr_value * atr_stop_mult p
          in if stop_distance \<le> 0 then 1 / 100
             else
               let position_size0 = risk_amount / stop_distance;
                   position_size1 = min position_size0 (max_size p);
                   position_size2 = max position_size1 (1 / 100)
               in py_round position_size2 2)"

subsection \<open>Daily statistics and the risk gates\<close>

text \<open>\<^verbatim>\<open>reset_daily_stats\<close>: the daily fields start afresh when the bar's date differs
  from \<open>last_trade_date\<close>.\<close>

definition reset_daily_stats :: "bar \<Rightarrow> strategy \<Rightarrow> strategy" where
  "reset_daily_stats b s =
     (let current_date = cur_date b in
      if last_trade_date s \<noteq> Some current_date
      then s\<lparr>daily_pnl := 0,
             daily_trades := 0,
             daily_starting_cash := Some (broker_value b),
             last_trade_date := Some current_date\<rparr>
      else s)"

text \<open>The four tests of \<^verbatim>\<open>check_risk_limits\<close>, each on the state after the reset, in
  the order of the source.\<close>

definition loss_pct :: "strategy \<Rightarrow> rat" where
  "loss_pct s = \<bar>daily_pnl s / the (daily_starting_cash s)\<bar> * 100"

definition daily_loss_hit :: "params \<Rightarrow> strategy \<Rightarrow> bool" where
  "daily_loss_hit p s =
     (truthy (daily_starting_cash s) \<and> 0 < the (daily_starting_cash s) \<and>
      daily_pnl s < 0 \<and> max_daily_loss p \<le> loss_pct s)"

definition daily_trades_hit :: "params \<Rightarrow> strategy \<Rightarrow> bool" where
  "daily_trades_hit p s = (max_trades p \<le> daily_trades s)"

definition consec_losses_hit :: "params \<Rightarrow> strategy \<Rightarrow> bool" where
  "consec_losses_hit p s = (max_consec_losses p \<le> consecutive_losses s)"

definition cooldown_hit :: "params \<Rightarrow> strategy \<Rightarrow> bool" where
  "cooldown_hit p s = (0 < consecutive_losses s \<and> bars_since_trade s < cooldown_bars p)"

text \<open>\<^verbatim>\<open>check_risk_limits\<close> returns the state it leaves behind and its verdict
  (\<open>True\<close>: trading is allowed).\<close>

definition check_risk_limits :: "params \<Rightarrow> bar \<Rightarrow> strategy \<Rightarrow> strategy \<times> bool" where
  "check_risk_limits p b s =
     (let s1 = reset_daily_stats b s in
      if daily_loss_hit p s1 then (s1, False)
      else if daily_trades_hit p s1 then (s1, False)
      else if consec_losses_hit p s1 then (s1, False)
      else if cooldown_hit p s1 then (s1, False)
      else (s1, True))"

subsection \<open>The per-bar entry filters\<close>

text \<open>
  Each filter wraps its reads in \<^verbatim>\<open>try\<close> with a bare \<^verbatim>\<open>except\<close>. To say what the
  \<^verbatim>\<open>except\<close> branch does, the body of each \<^verbatim>\<open>try\<close> is a function of the reads it
  makes, where a read that raises is \<open>None\<close>; the body returns the exception or the
  value, and the filter maps the exception to what its \<^verbatim>\<open>except\<close> branch returns.
\<close>

definition read_line :: "'a option \<Rightarrow> py_error + 'a" where
  "read_line v = (case v of None \<Rightarrow> Inl IndexError | Some x \<Rightarrow> Inr x)"

definition is_trading_session_try :: "params \<Rightarrow> int option \<Rightarrow> py_error + bool" where
  "is_trading_session_try p hour_read =
     (case read_line hour_read of
        Inl e \<Rightarrow> Inl e
      | Inr current_hour \<Rightarrow>
          if avoid_low_vol p \<and> low_vol_start p \<le> current_hour \<and> current_hour < low_vol_end p
          then Inr False
          else Inr True)"

definition is_trading_session :: "params \<Rightarrow> int option \<Rightarrow> bool" where
  "is_trading_session p hour_read =
     (if trade_24h p \<and> \<not> avoid_low_vol p then True
      else case is_trading_session_try p hour_read of
             Inl e \<Rightarrow> True
           | Inr r \<Rightarrow> r)"

definition check_volume_surge_try :: "params \<Rightarrow> rat option \<Rightarrow> rat option \<Rightarrow> py_error + bool" where
  "check_volume_surge_try p volume_read sma_read =
     (case read_line volume_read of
        Inl e \<Rightarrow> Inl e
      | Inr v \<Rightarrow>
          (case read_line sma_read of
             Inl e \<Rightarrow> Inl e
           | Inr m \<Rightarrow> Inr (m * vol_surge p \<le> v)))"

definition check_volume_surge :: "params \<Rightarrow> rat option \<Rightarrow> rat option \<Rightarrow> bool" where
  "check_volume_surge p volume_read sma_read =
     (if \<not> req_volume_surge p then True
      else case check_volume_surge_try p volume_read sma_read of
             Inl e \<Rightarrow> False
           | Inr r \<Rightarrow> r)"

definition check_trend_strength_try ::
  "params \<Rightarrow> rat option \<Rightarrow> rat option \<Rightarrow> rat option \<Rightarrow> py_error + bool" where
  "check_trend_strength_try p close_read fast_read slow_read =
     (case read_line close_read of
        Inl e \<Rightarrow> Inl e
      | Inr price \<Rightarrow>
          (case read_line fast_read of
             Inl e \<Rightarrow> Inl e
           | Inr f \<Rightarrow>
               (case read_line slow_read of
                  Inl e \<Rightarrow> Inl e
                | Inr sl \<Rightarrow>
                    if price = 0 then Inl ZeroDivisionError
                    else let ema_separation = \<bar>f - sl\<bar> / price
                         in Inr (min_trend p \<le> ema_separation))))"

definition check_trend_strength ::
  "params \<Rightarrow> rat option \<Rightarrow> rat option \<Rightarrow> rat option \<Rightarrow> bool" where
  "check_trend_strength p close_read fast_read slow_read =
     (if \<not> req_trend p then True
      else case check_trend_strength_try p close_read fast_read slow_read of
             Inl e \<Rightarrow> False
           | Inr r \<Rightarrow> r)"

definition check_macd_agreement_try ::
  "string \<Rightarrow> rat option \<Rightarrow> rat option \<Rightarrow> py_error + bool" where
  "check_macd_agreement_try direction macd_read signal_read =
     (case read_line macd_read of
        Inl e \<Rightarrow> Inl e
      | Inr m \<Rightarrow>
          (case read_line signal_read of
             Inl e \<Rightarrow> Inl e
           | Inr sg \<Rightarrow> if direction = ''long'' then Inr (sg < m) else Inr (m < sg)))"

definition check_macd_agreement ::
  "params \<Rightarrow> string \<Rightarrow> rat option \<Rightarrow> rat option \<Rightarrow> bool" where
  "check_macd_agreement p direction macd_read signal_read =
     (if \<not> req_macd p then True
      else case check_macd_agreement_try direction macd_read signal_read of
             Inl e \<Rightarrow> False
           | Inr r \<Rightarrow> r)"

subsection \<open>Managing the open position\<close>

text \<open>The block under \<^verbatim>\<open># Update trailing stop\<close>: the candidate computed from the
  watermark \<open>w\<close> replaces the stop only if there is no stop or the candidate is better.\<close>

definition trail_stop_long :: "params \<Rightarrow> bar \<Rightarrow> rat \<Rightarrow> strategy \<Rightarrow> strategy" where
  "trail_stop_long p b w s =
     (if trailing_active s then
        let new_stop = w - atr b * trail_distance p in
        (case stop_loss s of
           None \<Rightarrow> s\<lparr>stop_loss := Some new_stop\<rparr>
         | Some st \<Rightarrow> if st < new_stop then s\<lparr>stop_loss := Some new_stop\<rparr> else s)
      else s)"

definition trail_stop_short :: "params \<Rightarrow> bar \<Rightarrow> rat \<Rightarrow> strategy \<Rightarrow> strategy" where
  "trail_stop_short p b w s =
     (if trailing_active s then
        let new_stop = w + atr b * trail_distance p in
        (case stop_loss s of
           None \<Rightarrow> s\<lparr>stop_loss := Some new_stop\<rparr>
         | Some st \<Rightarrow> if new_stop < st then s\<lparr>stop_loss := Some new_stop\<rparr> else s)
      else s)"

text \<open>
  \<^verbatim>\<open>update_trailing_stop\<close>. The division by the ATR raises when the ATR is zero; the
  bare \<^verbatim>\<open>except: pass\<close> then leaves the state as the statements before it made it
  (the watermark is already updated).
\<close>

definition update_trailing_stop :: "params \<Rightarrow> bar \<Rightarrow> strategy \<Rightarrow> strategy" where
  "update_trailing_stop p b s =
     (if \<not> use_trailing p \<or> position_size b = 0 then s
      else
        let current_price = close_px b; atr_value = atr b in
        if 0 < position_size b then
          (let w = (case highest_price s of
                      None \<Rightarrow> current_price
                    | Some h \<Rightarrow> if h < current_price then current_price else h);
               s1 = s\<lparr>highest_price := Some w\<rparr>
           in if \<not> trailing_active s1 \<and> truthy (entry_price s1) then
                (if atr_value = 0 then s1
                 else
                   let profit_atr = (w - the (entry_price s1)) / atr_value;
                       s2 = (if trail_activation p \<le> profit_atr
                             then s1\<lparr>trailing_active := True\<rparr> else s1)
                   in trail_stop_long p b w s2)
              else trail_stop_long p b w s1)
        else if position_size b < 0 then
          (let w = (case lowest_price s of
                      None \<Rightarrow> current_price
                    | Some l \<Rightarrow> if current_price < l then current_price else l);
               s1 = s\<lparr>lowest_price := Some w\<rparr>
           in if \<not> trailing_active s1 \<and> truthy (entry_price s1) then
                (if atr_value = 0 then s1
                 else
                   let profit_atr = (the (entry_price s1) - w) / atr_value;
                       s2 = (if trail_activation p \<le> profit_atr
                             then s1\<lparr>trailing_active := True\<rparr> else s1)
                   in trail_stop_short p b w s2)
              else trail_stop_short p b w s1)
        else s)"

text \<open>
  A run of \<^verbatim>\<open>next\<close> is the strategy state together with the orders submitted so far
  in this bar, oldest first. Submitting an order stores it in \<^verbatim>\<open>self.order\<close>.
\<close>

type_synonym run = "strategy \<times> order_intent list"

definition submit :: "order_intent \<Rightarrow> run \<Rightarrow> run" where
  "submit oi r = ((fst r)\<lparr>order := Some oi\<rparr>, snd r @ [oi])"

text \<open>
  \<^verbatim>\<open>check_partial_profit\<close>. Comparing the price with a \<open>partial_target\<close> that is
  \<^verbatim>\<open>None\<close> raises, and \<^verbatim>\<open>except: pass\<close> leaves everything as it was.
\<close>

definition check_partial_profit :: "params \<Rightarrow> bar \<Rightarrow> run \<Rightarrow> run" where
  "check_partial_profit p b r =
     (if \<not> use_partial p \<or> position_size b = 0 \<or> position_closed_partial (fst r) then r
      else
        let current_price = close_px b in
        (case partial_target (fst r) of
           None \<Rightarrow> r
         | Some pt \<Rightarrow>
             if 0 < position_size b \<and> pt \<le> current_price then
               (let size_to_close = py_round (\<bar>position_size b\<bar> * partial_pct p) 2 in
                if 1 / 100 \<le> size_to_close
                then (let r1 = submit (Sell size_to_close) r
                      in ((fst r1)\<lparr>position_closed_partial := True\<rparr>, snd r1))
                else r)
             else if position_size b < 0 \<and> current_price \<le> pt then
               (let size_to_close = py_round (\<bar>position_size b\<bar> * partial_pct p) 2 in
                if 1 / 100 \<le> size_to_close
                then (let r1 = submit (Buy size_to_close) r
                      in ((fst r1)\<lparr>position_closed_partial := True\<rparr>, snd r1))
                else r)
             else r))"

text \<open>The stop-loss and take-profit checks of \<^verbatim>\<open>next\<close>, which follow
  \<^verbatim>\<open>check_partial_profit\<close> in the position-management block.\<close>

definition stop_loss_hit :: "bar \<Rightarrow> strategy \<Rightarrow> bool" where
  "stop_loss_hit b s =
     (truthy (stop_loss s) \<and>
      ((0 < position_size b \<and> close_px b \<le> the (stop_loss s)) \<or>
       (position_size b < 0 \<and> the (stop_loss s) \<le> close_px b)))"

definition take_profit_hit :: "bar \<Rightarrow> strategy \<Rightarrow> bool" where
  "take_profit_hit b s =
     (truthy (take_profit s) \<and>
      ((0 < position_size b \<and> the (take_profit s) \<le> close_px b) \<or>
       (position_size b < 0 \<and> close_px b \<le> the (take_profit s))))"

definition manage_position :: "params \<Rightarrow> bar \<Rightarrow> strategy \<Rightarrow> run" where
  "manage_position p b s =
     (let s1 = update_trailing_stop p b s;
          r = check_partial_profit p b (s1, [])
      in if stop_loss_hit b (fst r) then submit Close r
         else if take_profit_hit b (fst r) then submit Close r
         else r)"

subsection \<open>Order notifications\<close>

text \<open>
  What \<^verbatim>\<open>notify_order\<close> sees: the order's status and side, the executed price and
  size, and the broker's position at the time of the call (\<^verbatim>\<open>self.position.size\<close>).
\<close>

datatype order_status =
  Created | Submitted | Accepted | Partial | Completed | Canceled | Expired | Margin | Rejected

record notice =
  status :: order_status
  isbuy :: bool
  executed_price :: rat
  executed_size :: rat
  position_now :: rat

text \<open>The assignments made on an entry fill, and those made once the position is gone.\<close>

definition on_entry_fill :: "notice \<Rightarrow> strategy \<Rightarrow> strategy" where
  "on_entry_fill n s =
     s\<lparr>entry_price := Some (executed_price n),
       bars_since_trade := 0,
       trailing_active := False,
       position_closed_partial := False,
       daily_trades := daily_trades s + 1\<rparr>"

definition reset_position :: "strategy \<Rightarrow> strategy" where
  "reset_position s =
     s\<lparr>entry_price := None,
       stop_loss := None,
       take_profit := None,
       partial_target := None,
       highest_price := None,
       lowest_price := None,
       trailing_active := False,
       position_closed_partial := False\<rparr>"

text \<open>The \<^verbatim>\<open>pnl\<close> computed in the branch \<^verbatim>\<open># Closing a position\<close>.\<close>

definition closing_pnl :: "notice \<Rightarrow> strategy \<Rightarrow> rat" where
  "closing_pnl n s =
     (if 0 < position_now n
      then (executed_price n - the (entry_price s)) * \<bar>executed_size n\<bar>
      else (the (entry_price s) - executed_price n) * \<bar>executed_size n\<bar>)"

definition on_closing_fill :: "notice \<Rightarrow> strategy \<Rightarrow> strategy" where
  "on_closing_fill n s =
     (let pnl = closing_pnl n s;
          s1 = s\<lparr>daily_pnl := daily_pnl s + pnl\<rparr>;
          s2 = (if pnl < 0 then s1\<lparr>consecutive_losses := consecutive_losses s1 + 1\<rparr>
                else s1\<lparr>consecutive_losses := 0\<rparr>)
      in if position_now n = 0 then reset_position s2 else s2)"

definition notify_order :: "notice \<Rightarrow> strategy \<Rightarrow> strategy" where
  "notify_order n s =
     (if status n = Submitted \<or> status n = Accepted then s
      else
        let s1 =
          (if status n = Completed then
             (if isbuy n then
                (if \<not> truthy (entry_price s) then on_entry_fill n s else s)
              else
                (if \<not> truthy (entry_price s) then on_entry_fill n s
                 else on_closing_fill n s))
           else s)
        in s1\<lparr>order := None\<rparr>)"

subsection \<open>Entry signals and the bar handler\<close>

text \<open>The two signal flags as \<^verbatim>\<open>next\<close> computes them: the primary rule, then the two
  alternatives, each tried only while the flag is still false.\<close>

definition long_signal :: "params \<Rightarrow> bar \<Rightarrow> bool" where
  "long_signal p b =
     (let primary =
            (0 < fast_medium_cross b \<and> ema_slow b < close_px b \<and>
             rsi_mid p < rsi b \<and> rsi b < rsi_ob p \<and>
             check_macd_agreement p ''long'' (Some (macd_line b)) (Some (macd_signal b)));
          alt_macd =
            (0 < macd_cross b \<and> ema_medium b < ema_fast b \<and> ema_slow b < ema_medium b \<and>
             rsi_mid p < rsi b \<and> rsi b < rsi_ob p);
          alt_bb =
            (allow_bb p \<and> bb_top b < close_px b \<and> ema_slow b < ema_fast b \<and>
             rsi_mid p < rsi b \<and>
             check_volume_surge p (Some (volume b)) (Some (volume_sma b)))
      in if primary then True
         else if alt_macd then True
         else alt_bb)"

definition short_signal :: "params \<Rightarrow> bar \<Rightarrow> bool" where
  "short_signal p b =
     (let primary =
            (fast_medium_cross b < 0 \<and> close_px b < ema_slow b \<and>
             rsi_os p < rsi b \<and> rsi b < rsi_mid p \<and>
             check_macd_agreement p ''short'' (Some (macd_line b)) (Some (macd_signal b)));
          alt_macd =
            (macd_cross b < 0 \<and> ema_fast b < ema_medium b \<and> ema_medium b < ema_slow b \<and>
             rsi b < rsi_mid p \<and> rsi_os p < rsi b);
          alt_bb =
            (allow_bb p \<and> close_px b < bb_bot b \<and> ema_fast b < ema_slow b \<and>
             rsi b < rsi_mid p \<and>
             check_volume_surge p (Some (volume b)) (Some (volume_sma b)))
      in if primary then True
         else if alt_macd then True
         else alt_bb)"

text \<open>The block \<^verbatim>\<open># === EXECUTE TRADES ===\<close>, as a function of the two flags.\<close>

definition execute_trades :: "params \<Rightarrow> bar \<Rightarrow> bool \<Rightarrow> bool \<Rightarrow> strategy \<Rightarrow> run" where
  "execute_trades p b long_sig short_sig s =
     (let current_price = close_px b in
      if long_sig then
        (let size = calculate_position_size p b;
             atr_value = atr b;
             s1 = s\<lparr>stop_loss := Some (current_price - atr_value * atr_stop_mult p),
                    take_profit := Some (current_price + atr_value * atr_target_mult p),
                    partial_target := Some (current_price + atr_value * partial_target_mult p)\<rparr>;
             r = submit (Buy size) (s1, [])
         in ((fst r)\<lparr>highest_price := Some current_price\<rparr>, snd r))
      else if short_sig then
        (let size = calculate_position_size p b;
             atr_value = atr b;
             s1 = s\<lparr>stop_loss := Some (current_price + atr_value * atr_stop_mult p),
                    take_profit := Some (current_price - atr_value * atr_target_mult p),
                    partial_target := Some (current_price - atr_value * partial_target_mult p)\<rparr>;
             r = submit (Sell size) (s1, [])
         in ((fst r)\<lparr>lowest_price := Some current_price\<rparr>, snd r))
      else (s, []))"

text \<open>The entry logic of \<^verbatim>\<open>next\<close>, from \<^verbatim>\<open># Check minimum data\<close> on.\<close>

definition try_entry :: "params \<Rightarrow> bar \<Rightarrow> strategy \<Rightarrow> run" where
  "try_entry p b s =
     (if data_len b < max_period p then (s, [])
      else
        let (s1, allowed) = check_risk_limits p b s in
        if \<not> allowed then (s1, [])
        else if \<not> is_trading_session p (Some (cur_hour b)) then (s1, [])
        else if atr b = 0 \<or> atr b \<le> 0 then (s1, [])
        else if \<not> check_trend_strength p (Some (close_px b)) (Some (ema_fast b))
                    (Some (ema_slow b)) then (s1, [])
        else if \<not> check_volume_surge p (Some (volume b)) (Some (volume_sma b)) then (s1, [])
        else execute_trades p b (long_signal p b) (short_signal p b) s1)"

text \<open>\<^verbatim>\<open>next\<close>: the new state and the orders submitted while handling the bar. Its
  first statement, the capped bar counter, is \<open>count_bar\<close>.\<close>

definition count_bar :: "strategy \<Rightarrow> strategy" where
  "count_bar s =
     (if bars_since_trade s < 100
      then s\<lparr>bars_since_trade := bars_since_trade s + 1\<rparr> else s)"

definition next_bar :: "params \<Rightarrow> bar \<Rightarrow> strategy \<Rightarrow> run" where
  "next_bar p b s =
     (let s1 = count_bar s
      in if order s1 \<noteq> None then (s1, [])
         else if position_size b \<noteq> 0 then manage_position p b s1
         else try_entry p b s1)"

text \<open>
  The engine is driven by two kinds of events: a bar (\<^verbatim>\<open>next\<close>) and an order
  notification (\<^verbatim>\<open>notify_order\<close>). \<open>run_events\<close> is the state after a sequence of
  them, oldest first.
\<close>

datatype event = BarEvent bar | OrderEvent notice

fun step :: "params \<Rightarrow> event \<Rightarrow> strategy \<Rightarrow> strategy" where
  "step p (BarEvent b) s = fst (next_bar p b s)"
| "step p (OrderEvent n) s = notify_order n s"

definition run_events :: "params \<Rightarrow> event list \<Rightarrow> strategy \<Rightarrow> strategy" where
  "run_events p evs s = fold (step p) evs s"

text \<open>The broker's position as an event shows it.\<close>

fun shown_position :: "event \<Rightarrow> rat" where
  "shown_position (BarEvent b) = position_size b"
| "shown_position (OrderEvent n) = position_now n"

text \<open>The stop is set and is at least, or at most, a given level.\<close>

definition stop_at_least :: "rat \<Rightarrow> strategy \<Rightarrow> bool" where
  "stop_at_least st s = (case stop_loss s of None \<Rightarrow> False | Some st' \<Rightarrow> st \<le> st')"

definition stop_at_most :: "rat \<Rightarrow> strategy \<Rightarrow> bool" where
  "stop_at_most st s = (case stop_loss s of None \<Rightarrow> False | Some st' \<Rightarrow> st' \<le> st)"

section \<open>The 1-minute engine: \<^verbatim>\<open>strategies/LTCUSD_ScalperBot_1m.py\<close>\<close>

text \<open>
  The second strategy class keeps its own attributes and reads \<^verbatim>\<open>self.params\<close>
  directly. Its attributes carry the suffix \<open>1\<close> here, since the two classes use the
  same attribute names; the parameters keep the names of the \<^verbatim>\<open>params\<close> tuple.
\<close>

record params_1m =
  atr_stop_multiplier :: rat
  atr_breakeven_multiplier :: rat
  use_trailing_stop :: bool
  trailing_activation_atr :: rat
  trailing_distance_atr :: rat
  use_partial_exits :: bool
  partial_exit_percent :: rat
  partial_exit_atr :: rat
  risk_per_trade :: rat
  max_position_size :: rat

record strategy_1m =
  order1 :: "order_intent option"
  entry_price1 :: "rat option"
  stop_loss1 :: "rat option"
  take_profit1 :: "rat option"
  breakeven_moved1 :: bool
  partial_exit_done1 :: bool
  trailing_active1 :: bool
  highest_price1 :: "rat option"
  lowest_price1 :: "rat option"
  entry_bar1 :: nat
  bars_since_trade1 :: int
  daily_pnl1 :: rat
  daily_trades1 :: int
  last_trade_date1 :: "int option"
  daily_starting_cash1 :: "rat option"
  total_trades1 :: int
  winning_trades1 :: int
  losing_trades1 :: int

type_synonym run_1m = "strategy_1m \<times> order_intent list"

subsection \<open>Sizing and the daily reset\<close>

definition calculate_position_size_1m :: "params_1m \<Rightarrow> bar \<Rightarrow> rat" where
  "calculate_position_size_1m q b =
     (if atr b = 0 \<or> atr b \<le> 0 then 1 / 100
      else
        let account_value = broker_value b in
        if account_value \<le> 0 then 1 / 100
        else
          let risk_amount = account_value * (risk_per_trade q / 100);
              stop_distance = atr b * atr_stop_multiplier q
          in if stop_distance \<le> 0 then 1 / 100
             else
               let position_size0 = risk_amount / stop_distance;
                   position_size1 = min position_size0 (max_position_size q);
                   position_size2 = max position_size1 (1 / 100)
               in py_round position_size2 3)"

definition reset_daily_stats_1m :: "bar \<Rightarrow> strategy_1m \<Rightarrow> strategy_1m" where
  "reset_daily_stats_1m b s =
     (let current_date = cur_date b in
      if last_trade_date1 s \<noteq> Some current_date
      then s\<lparr>daily_pnl1 := 0,
             daily_trades1 := 0,
             daily_starting_cash1 := Some (broker_value b),
             last_trade_date1 := Some current_date\<rparr>
      else s)"

subsection \<open>\<^verbatim>\<open>update_stop_and_target\<close>\<close>

text \<open>
  The method is one \<^verbatim>\<open>try\<close> block whose handler only logs. Its steps for a long
  position are the breakeven move, the partial exit, the trailing stop and the two exit
  checks. Each of the first three starts with a division by the ATR, which raises when
  the ATR is zero; the state then stays as the steps before it left it.
\<close>

definition breakeven_long :: "params_1m \<Rightarrow> bar \<Rightarrow> strategy_1m \<Rightarrow> py_error + strategy_1m" where
  "breakeven_long q b s =
     (if \<not> breakeven_moved1 s then
        (if atr b = 0 then Inl ZeroDivisionError
         else
           let profit_atr = (close_px b - the (entry_price1 s)) / atr b in
           if atr_breakeven_multiplier q \<le> profit_atr
           then Inr (s\<lparr>stop_loss1 := Some (the (entry_price1 s) + atr b * (1 / 10)),
                       breakeven_moved1 := True\<rparr>)
           else Inr s)
      else Inr s)"

definition breakeven_short :: "params_1m \<Rightarrow> bar \<Rightarrow> strategy_1m \<Rightarrow> py_error + strategy_1m" where
  "breakeven_short q b s =
     (if \<not> breakeven_moved1 s then
        (if atr b = 0 then Inl ZeroDivisionError
         else
           let profit_atr = (the (entry_price1 s) - close_px b) / atr b in
           if atr_breakeven_multiplier q \<le> profit_atr
           then Inr (s\<lparr>stop_loss1 := Some (the (entry_price1 s) - atr b * (1 / 10)),
                       breakeven_moved1 := True\<rparr>)
           else Inr s)
      else Inr s)"

text \<open>The partial exit returns the order it submitted, if any; the method returns right
  after submitting it.\<close>

definition partial_exit_long ::
  "params_1m \<Rightarrow> bar \<Rightarrow> strategy_1m \<Rightarrow> py_error + (strategy_1m \<times> order_intent option)" where
  "partial_exit_long q b s =
     (if use_partial_exits q \<and> \<not> partial_exit_done1 s then
        (if atr b = 0 then Inl ZeroDivisionError
         else
           let profit_atr = (close_px b - the (entry_price1 s)) / atr b in
           if partial_exit_atr q \<le> profit_atr then
             (let partial_size = position_size b * partial_exit_percent q in
              if 1 / 100 \<le> partial_size
              then Inr (s\<lparr>order1 := Some (Sell partial_size), partial_exit_done1 := True\<rparr>,
                        Some (Sell partial_size))
              else Inr (s, None))
           else Inr (s, None))
      else Inr (s, None))"

definition partial_exit_short ::
  "params_1m \<Rightarrow> bar \<Rightarrow> strategy_1m \<Rightarrow> py_error + (strategy_1m \<times> order_intent option)" where
  "partial_exit_short q b s =
     (if use_partial_exits q \<and> \<not> partial_exit_done1 s then
        (if atr b = 0 then Inl ZeroDivisionError
         else
           let profit_atr = (the (entry_price1 s) - close_px b) / atr b in
           if partial_exit_atr q \<le> profit_atr then
             (let partial_size = \<bar>position_size b\<bar> * partial_exit_percent q in
              if 1 / 100 \<le> partial_size
              then Inr (s\<lparr>order1 := Some (Buy partial_size), partial_exit_done1 := True\<rparr>,
                        Some (Buy partial_size))
              else Inr (s, None))
           else Inr (s, None))
      else Inr (s, None))"

definition trailing_long :: "params_1m \<Rightarrow> bar \<Rightarrow> strategy_1m \<Rightarrow> py_error + strategy_1m" where
  "trailing_long q b s =
     (if use_trailing_stop q then
        (if atr b = 0 then Inl ZeroDivisionError
         else
           let profit_atr = (the (highest_price1 s) - the (entry_price1 s)) / atr b in
           if trailing_activation_atr q \<le> profit_atr then
             (let s1 = (if \<not> trailing_active1 s then s\<lparr>trailing_active1 := True\<rparr> else s);
                  trail_distance = atr b * trailing_distance_atr q;
                  new_stop = the (highest_price1 s1) - trail_distance
              in case stop_loss1 s1 of
                   None \<Rightarrow> Inr (s1\<lparr>stop_loss1 := Some new_stop\<rparr>)
                 | Some st \<Rightarrow>
                     if st < new_stop then Inr (s1\<lparr>stop_loss1 := Some new_stop\<rparr>) else Inr s1)
           else Inr s)
      else Inr s)"

definition trailing_short :: "params_1m \<Rightarrow> bar \<Rightarrow> strategy_1m \<Rightarrow> py_error + strategy_1m" where
  "trailing_short q b s =
     (if use_trailing_stop q then
        (if atr b = 0 then Inl ZeroDivisionError
         else
           let profit_atr = (the (entry_price1 s) - the (lowest_price1 s)) / atr b in
           if trailing_activation_atr q \<le> profit_atr then
             (let s1 = (if \<not> trailing_active1 s then s\<lparr>trailing_active1 := True\<rparr> else s);
                  trail_distance = atr b * trailing_distance_atr q;
                  new_stop = the (lowest_price1 s1) + trail_distance
              in case stop_loss1 s1 of
                   None \<Rightarrow> Inr (s1\<lparr>stop_loss1 := Some new_stop\<rparr>)
                 | Some st \<Rightarrow>
                     if new_stop < st then Inr (s1\<lparr>stop_loss1 := Some new_stop\<rparr>) else Inr s1)
           else Inr s)
      else Inr s)"

definition exits_long :: "bar \<Rightarrow> strategy_1m \<Rightarrow> run_1m" where
  "exits_long b s =
     (if truthy (stop_loss1 s) \<and> close_px b \<le> the (stop_loss1 s)
      then (s\<lparr>order1 := Some Close\<rparr>, [Close])
      else if truthy (take_profit1 s) \<and> the (take_profit1 s) \<le> close_px b
      then (s\<lparr>order1 := Some Close\<rparr>, [Close])
      else (s, []))"

definition exits_short :: "bar \<Rightarrow> strategy_1m \<Rightarrow> run_1m" where
  "exits_short b s =
     (if truthy (stop_loss1 s) \<and> the (stop_loss1 s) \<le> close_px b
      then (s\<lparr>order1 := Some Close\<rparr>, [Close])
      else if truthy (take_profit1 s) \<and> close_px b \<le> the (take_profit1 s)
      then (s\<lparr>order1 := Some Close\<rparr>, [Close])
      else (s, []))"

text \<open>The steps for a long and for a short position, after the watermark update.\<close>

definition long_steps :: "params_1m \<Rightarrow> bar \<Rightarrow> strategy_1m \<Rightarrow> run_1m" where
  "long_steps q b s1 =
     (case breakeven_long q b s1 of
        Inl e \<Rightarrow> (s1, [])
      | Inr s2 \<Rightarrow>
          (case partial_exit_long q b s2 of
             Inl e \<Rightarrow> (s2, [])
           | Inr (s3, Some oi) \<Rightarrow> (s3, [oi])
           | Inr (s3, None) \<Rightarrow>
               (case trailing_long q b s3 of
                  Inl e \<Rightarrow> (s3, [])
                | Inr s4 \<Rightarrow> exits_long b s4)))"

definition short_steps :: "params_1m \<Rightarrow> bar \<Rightarrow> strategy_1m \<Rightarrow> run_1m" where
  "short_steps q b s1 =
     (case breakeven_short q b s1 of
        Inl e \<Rightarrow> (s1, [])
      | Inr s2 \<Rightarrow>
          (case partial_exit_short q b s2 of
             Inl e \<Rightarrow> (s2, [])
           | Inr (s3, Some oi) \<Rightarrow> (s3, [oi])
           | Inr (s3, None) \<Rightarrow>
               (case trailing_short q b s3 of
                  Inl e \<Rightarrow> (s3, [])
                | Inr s4 \<Rightarrow> exits_short b s4)))"

definition update_stop_and_target :: "params_1m \<Rightarrow> bar \<Rightarrow> strategy_1m \<Rightarrow> run_1m" where
  "update_stop_and_target q b s =
     (if position_size b = 0 \<or> \<not> truthy (entry_price1 s) then (s, [])
      else if 0 < position_size b then
        (let w = (case highest_price1 s of
                    None \<Rightarrow> close_px b
                  | Some h \<Rightarrow> if h < close_px b then close_px b else h)
         in long_steps q b (s\<lparr>highest_price1 := Some w\<rparr>))
      else
        (let w = (case lowest_price1 s of
                    None \<Rightarrow> close_px b
                  | Some l \<Rightarrow> if close_px b < l then close_px b else l)
         in short_steps q b (s\<lparr>lowest_price1 := Some w\<rparr>)))"

subsection \<open>Order notifications of the 1-minute engine\<close>

record notice_1m = notice +
  data_len_now :: nat

definition reset_position_1m :: "strategy_1m \<Rightarrow> strategy_1m" where
  "reset_position_1m s =
     s\<lparr>entry_price1 := None,
       stop_loss1 := None,
       take_profit1 := None,
       highest_price1 := None,
       lowest_price1 := None,
       breakeven_moved1 := False,
       partial_exit_done1 := False,
       trailing_active1 := False\<rparr>"

definition notify_order_1m :: "notice_1m \<Rightarrow> strategy_1m \<Rightarrow> strategy_1m" where
  "notify_order_1m n s =
     (if status n = Submitted \<or> status n = Accepted then s
      else
        let s1 =
          (if status n = Completed then
             (if isbuy n then
                s\<lparr>entry_price1 := Some (executed_price n),
                  entry_bar1 := data_len_now n,
                  bars_since_trade1 := 0,
                  breakeven_moved1 := False,
                  partial_exit_done1 := False,
                  trailing_active1 := False,
                  total_trades1 := total_trades1 s + 1,
                  daily_trades1 := daily_trades1 s + 1\<rparr>
              else
                (let s2 =
                   (if truthy (entry_price1 s) \<and> 1 / 1000 < \<bar>executed_size n\<bar> then
                      (let pnl = (executed_price n - the (entry_price1 s)) * \<bar>executed_size n\<bar>;
                           s3 = s\<lparr>daily_pnl1 := daily_pnl1 s + pnl\<rparr>
                       in if 0 < pnl then s3\<lparr>winning_trades1 := winning_trades1 s3 + 1\<rparr>
                          else s3\<lparr>losing_trades1 := losing_trades1 s3 + 1\<rparr>)
                    else s)
                 in if position_now n = 0 then reset_position_1m s2 else s2))
           else s)
        in s1\<lparr>order1 := None\<rparr>)"

section \<open>What the specification says, for comparison\<close>

text \<open>
  The sizing rule in the specification's words: the raw size is rounded first and the
  rounded value is clamped to \<open>[0.01, max_position_size]\<close>; the fallback is \<open>0.01\<close>.
\<close>

definition spec_position_size :: "params \<Rightarrow> bar \<Rightarrow> rat" where
  "spec_position_size p b =
     (if atr b \<le> 0 \<or> broker_value b \<le> 0 \<or> atr b * atr_stop_mult p \<le> 0 then 1 / 100
      else max (1 / 100)
             (min (max_size p)
                (py_round (broker_value b * (risk_pct p / 100) / (atr b * atr_stop_mult p)) 2)))"

text \<open>
  The gate sequence in the specification's words: the first stage that vetoes, in the
  order daily loss cap, daily trade-count cap, consecutive-loss cap, post-loss cooldown;
  the loss is \<open>|daily_pnl| / daily_starting_equity\<close> in percent.
\<close>

datatype veto = DailyLossCap | TradeCountCap | LossStreakCap | PostLossCooldown

definition spec_first_veto :: "params \<Rightarrow> strategy \<Rightarrow> veto option" where
  "spec_first_veto p s =
     (if daily_pnl s < 0 \<and>
         max_daily_loss p \<le> \<bar>daily_pnl s\<bar> / the (daily_starting_cash s) * 100
      then Some DailyLossCap
      else if max_trades p \<le> daily_trades s then Some TradeCountCap
      else if max_consec_losses p \<le> consecutive_losses s then Some LossStreakCap
      else if 0 < consecutive_losses s \<and> bars_since_trade s < cooldown_bars p
      then Some PostLossCooldown
      else None)"

section \<open>Concrete inputs\<close>

text \<open>The default parameters of the v2 class, and of the 1-minute class.\<close>

definition ex_params :: params where
  "ex_params =
     \<lparr>rsi_ob = 70, rsi_os = 30, rsi_mid = 50, atr_stop_mult = 3 / 2, atr_target_mult = 5 / 2,
      vol_surge = 3 / 2, use_trailing = True, trail_activation = 1, trail_distance = 4 / 5,
      use_partial = True, partial_pct = 1 / 2, partial_target_mult = 3 / 2, risk_pct = 1,
      max_size = 2, max_daily_loss = 3, max_trades = 15, max_consec_losses = 3,
      cooldown_bars = 2, trade_24h = True, avoid_low_vol = False, low_vol_start = 0,
      low_vol_end = 4, req_volume_surge = False, req_macd = False, allow_bb = True,
      req_trend = False, min_trend = 3 / 20, max_period = 26\<rparr>"

definition ex_params_1m :: params_1m where
  "ex_params_1m =
     \<lparr>atr_stop_multiplier = 3 / 2, atr_breakeven_multiplier = 1, use_trailing_stop = True,
      trailing_activation_atr = 1, trailing_distance_atr = 6 / 5, use_partial_exits = True,
      partial_exit_percent = 1 / 2, partial_exit_atr = 3 / 2, risk_per_trade = 1 / 2,
      max_position_size = 1\<rparr>"

text \<open>The v2 defaults with every optional filter switched on.\<close>

definition ex_params_strict :: params where
  "ex_params_strict =
     ex_params\<lparr>avoid_low_vol := True, req_volume_surge := True, req_macd := True,
       req_trend := True\<rparr>"

text \<open>A bar with no position, an account of 10000, an ATR of 0.5 and no signal.\<close>

definition ex_bar :: bar where
  "ex_bar =
     \<lparr>position_size = 0, broker_value = 10000, cur_date = 1, cur_hour = 10, data_len = 100,
      close_px = 100, volume = 10, volume_sma = 10, ema_fast = 100, ema_medium = 100,
      ema_slow = 100, rsi = 50, macd_line = 0, macd_signal = 0, bb_top = 110, bb_bot = 90,
      atr = 1 / 2, fast_medium_cross = 0, macd_cross = 0\<rparr>"

text \<open>The same bar with the primary long rule satisfied: the fast EMA has crossed above
  the medium EMA, the close is above the slow EMA and the RSI is 60.\<close>

definition ex_bar_long_signal :: bar where
  "ex_bar_long_signal = ex_bar\<lparr>fast_medium_cross := 1, close_px := 101, rsi := 60\<rparr>"

text \<open>The strategy as \<^verbatim>\<open>__init__\<close> and \<^verbatim>\<open>start\<close> leave it, with an account of 10000.\<close>

definition ex_strategy :: strategy where
  "ex_strategy =
     \<lparr>order = None, entry_price = None, stop_loss = None, take_profit = None,
      partial_target = None, position_closed_partial = False, daily_trades = 0,
      daily_pnl = 0, last_trade_date = None, consecutive_losses = 0, bars_since_trade = 0,
      daily_starting_cash = Some 10000, highest_price = None, lowest_price = None,
      trailing_active = False\<rparr>"

text \<open>
  A long position of one lot entered at 100 with an ATR of 1: stop 98.5, partial target
  101.5, take-profit 102.5; and a bar that closes at 103 while the position is open.
\<close>

definition ex_long :: strategy where
  "ex_long =
     ex_strategy\<lparr>entry_price := Some 100, stop_loss := Some (197 / 2),
       take_profit := Some (205 / 2), partial_target := Some (203 / 2),
       highest_price := Some 100, daily_trades := 1, last_trade_date := Some 1\<rparr>"

definition ex_bar_jump :: bar where
  "ex_bar_jump = ex_bar\<lparr>position_size := 1, close_px := 103, atr := 1\<rparr>"

text \<open>Scenario B of the specification: a long position entered at 100 with an ATR of 2,
  hence a stop at 97 and a target at 105.\<close>

definition ex_long_b :: strategy where
  "ex_long_b =
     ex_strategy\<lparr>entry_price := Some 100, stop_loss := Some 97, take_profit := Some 105,
       partial_target := Some 103, highest_price := Some 100, daily_trades := 1,
       last_trade_date := Some 1\<rparr>"

text \<open>A short position of one lot entered at 100, with its stop at 101.5.\<close>

definition ex_short :: strategy where
  "ex_short =
     ex_strategy\<lparr>entry_price := Some 100, stop_loss := Some (203 / 2),
       take_profit := Some (195 / 2), partial_target := Some (197 / 2),
       lowest_price := Some 100, daily_trades := 1, last_trade_date := Some 1\<rparr>"

text \<open>Completed fills: a buy of one lot at 102 that closes the short position at a loss,
  a sell of one lot at 98 that closes the long position at a loss, a partial buy of half a
  lot at 98 that takes profit on the short position, and a partial sell of half a lot at
  99 on the long position.\<close>

definition ex_buy_to_close :: notice where
  "ex_buy_to_close =
     \<lparr>status = Completed, isbuy = True, executed_price = 102, executed_size = 1,
      position_now = 0\<rparr>"

definition ex_sell_to_close :: notice where
  "ex_sell_to_close =
     \<lparr>status = Completed, isbuy = False, executed_price = 98, executed_size = - 1,
      position_now = 0\<rparr>"

definition ex_buy_partial :: notice where
  "ex_buy_partial =
     \<lparr>status = Completed, isbuy = True, executed_price = 98, executed_size = 1 / 2,
      position_now = - 1 / 2\<rparr>"

definition ex_sell_partial :: notice where
  "ex_sell_partial =
     \<lparr>status = Completed, isbuy = False, executed_price = 99, executed_size = - 1 / 2,
      position_now = 1 / 2\<rparr>"

text \<open>
  The 1-minute engine in a long position entered at 100 with a stop at 97 and a target
  at 105, and three bars: 101.5 with an ATR of 2, then 100.5 with an ATR of 1, then 102
  with an ATR of 2.
\<close>

definition ex_long_1m :: strategy_1m where
  "ex_long_1m =
     \<lparr>order1 = None, entry_price1 = Some 100, stop_loss1 = Some 97, take_profit1 = Some 105,
      breakeven_moved1 = False, partial_exit_done1 = False, trailing_active1 = False,
      highest_price1 = Some 100, lowest_price1 = None, entry_bar1 = 100,
      bars_since_trade1 = 0, daily_pnl1 = 0, daily_trades1 = 1, last_trade_date1 = Some 1,
      daily_starting_cash1 = Some 10000, total_trades1 = 1, winning_trades1 = 0,
      losing_trades1 = 0\<rparr>"

definition ex_bar_a :: bar where
  "ex_bar_a = ex_bar\<lparr>position_size := 1, close_px := 203 / 2, atr := 2\<rparr>"

definition ex_bar_b :: bar where
  "ex_bar_b = ex_bar\<lparr>position_size := 1, close_px := 201 / 2, atr := 1\<rparr>"

definition ex_bar_c :: bar where
  "ex_bar_c = ex_bar\<lparr>position_size := 1, close_px := 102, atr := 2\<rparr>"

text \<open>The 1-minute engine with a breakeven move and a partial exit at 2 ATR and a trailing
  distance of 0.5 ATR, and two bars at 103 and 104 with a constant ATR of 2.\<close>

definition ex_params_1m_late :: params_1m where
  "ex_params_1m_late =
     ex_params_1m\<lparr>atr_breakeven_multiplier := 2, partial_exit_atr := 2,
       trailing_distance_atr := 1 / 2\<rparr>"

definition ex_bar_d :: bar where
  "ex_bar_d = ex_bar\<lparr>position_size := 1, close_px := 103, atr := 2\<rparr>"

definition ex_bar_e :: bar where
  "ex_bar_e = ex_bar\<lparr>position_size := 1, close_px := 104, atr := 2\<rparr>"

text \<open>The 1-minute engine with its default parameters after the bars at 101.5, at 100.5
  and at 102.\<close>

definition ex_long_1m_a :: strategy_1m where
  "ex_long_1m_a = fst (update_stop_and_target ex_params_1m ex_bar_a ex_long_1m)"

definition ex_long_1m_b :: strategy_1m where
  "ex_long_1m_b = fst (update_stop_and_target ex_params_1m ex_bar_b ex_long_1m_a)"

definition ex_long_1m_c :: strategy_1m where
  "ex_long_1m_c = fst (update_stop_and_target ex_params_1m ex_bar_c ex_long_1m_b)"

section \<open>Rounding\<close>

text \<open>Rounding stays between the floor and the ceiling, fixes whole numbers, and
  commutes with a clamp whose two bounds are whole multiples of the rounding unit.\<close>

lemma round_half_even_ge_floor: "\<lfloor>x\<rfloor> \<le> round_half_even x"
  by (simp add: round_half_even_def Let_def)

lemma round_half_even_le_ceiling: "round_half_even x \<le> \<lceil>x\<rceil>"
proof -
  have "\<lfloor>x\<rfloor> \<le> \<lceil>x\<rceil>" by (simp add: floor_le_ceiling)
  moreover have "\<lfloor>x\<rfloor> + 1 \<le> \<lceil>x\<rceil>" if "1 / 2 \<le> x - of_int \<lfloor>x\<rfloor>"
  proof -
    from that have "of_int \<lfloor>x\<rfloor> < x" by linarith
    then have "\<lfloor>x\<rfloor> < \<lceil>x\<rceil>" by (simp add: less_ceiling_iff)
    then show ?thesis by simp
  qed
  ultimately show ?thesis
    by (auto simp add: round_half_even_def Let_def)
qed

lemma round_half_even_of_int: "round_half_even (of_int k) = k"
  by (simp add: round_half_even_def Let_def)

lemma round_half_even_clamp:
  assumes "a \<le> c"
  shows "round_half_even (max (min x (of_int c)) (of_int a)) = max a (min c (round_half_even x))"
proof -
  consider "of_int c \<le> x" | "x \<le> of_int a" | "of_int a < x" "x < of_int c"
    by linarith
  then show ?thesis
  proof cases
    case 1
    then have "c \<le> \<lfloor>x\<rfloor>" by (simp add: le_floor_iff)
    then have "c \<le> round_half_even x"
      using round_half_even_ge_floor [of x] by linarith
    moreover have "max (min x (of_int c)) (of_int a) = (of_int c :: rat)"
      using 1 assms by (simp add: min_def max_def)
    ultimately show ?thesis
      using assms by (simp add: round_half_even_of_int min_def max_def)
  next
    case 2
    then have "\<lceil>x\<rceil> \<le> a" by (simp add: ceiling_le_iff)
    then have "round_half_even x \<le> a"
      using round_half_even_le_ceiling [of x] by linarith
    moreover have "max (min x (of_int c)) (of_int a) = (of_int a :: rat)"
    proof -
      have "x \<le> of_int c" using 2 assms by (meson of_int_le_iff order_trans)
      then show ?thesis using 2 by (simp add: min_def max_def)
    qed
    ultimately show ?thesis
      using assms by (simp add: round_half_even_of_int min_def max_def)
  next
    case 3
    have "a \<le> \<lfloor>x\<rfloor>" using 3(1) by (simp add: le_floor_iff)
    then have lo: "a \<le> round_half_even x"
      using round_half_even_ge_floor [of x] by linarith
    have "\<lceil>x\<rceil> \<le> c" using 3(2) by (simp add: ceiling_le_iff)
    then have hi: "round_half_even x \<le> c"
      using round_half_even_le_ceiling [of x] by linarith
    have "max (min x (of_int c)) (of_int a) = x"
      using 3 by (simp add: min_def max_def)
    then show ?thesis using lo hi by (simp add: min_def max_def)
  qed
qed

lemma py_round_clamp:
  assumes "a \<le> c"
  shows "py_round (max (min x (of_int c / 10 ^ n)) (of_int a / 10 ^ n)) n =
         max (of_int a / 10 ^ n) (min (of_int c / 10 ^ n) (py_round x n))"
proof -
  have pos: "(0::rat) < 10 ^ n" by simp
  have scale: "max (min x (of_int c / 10 ^ n)) (of_int a / 10 ^ n) * 10 ^ n =
               max (min (x * 10 ^ n) (of_int c)) (of_int a)"
    using pos by (simp add: min_def max_def field_simps)
  have "py_round (max (min x (of_int c / 10 ^ n)) (of_int a / 10 ^ n)) n =
        of_int (max a (min c (round_half_even (x * 10 ^ n)))) / 10 ^ n"
    unfolding py_round_def scale using round_half_even_clamp [OF assms] by simp
  also have "\<dots> = max (of_int a / 10 ^ n) (min (of_int c / 10 ^ n) (py_round x n))"
    using pos by (simp add: py_round_def min_def max_def field_simps)
  finally show ?thesis .
qed

lemma py_round_ge:
  assumes "of_int a / 10 ^ n \<le> x"
  shows "of_int a / 10 ^ n \<le> py_round x n"
proof -
  have "of_int a \<le> x * 10 ^ n" using assms by (simp add: field_simps)
  then have "a \<le> \<lfloor>x * 10 ^ n\<rfloor>" by (simp add: le_floor_iff)
  then have "a \<le> round_half_even (x * 10 ^ n)"
    using round_half_even_ge_floor [of "x * 10 ^ n"] by linarith
  then show ?thesis by (simp add: py_round_def field_simps)
qed

section \<open>Position sizing (claim C3)\<close>

lemma calculate_position_size_eq:
  "calculate_position_size p b =
     (if atr b \<le> 0 \<or> broker_value b \<le> 0 \<or> atr b * atr_stop_mult p \<le> 0 then 1 / 100
      else py_round
             (max (min (broker_value b * (risk_pct p / 100) / (atr b * atr_stop_mult p))
                     (max_size p))
                (1 / 100)) 2)"
  by (auto simp add: calculate_position_size_def Let_def)

lemma calculate_position_size_ge: "1 / 100 \<le> calculate_position_size p b"
proof -
  have "of_int 1 / 10 ^ 2 \<le> py_round (max y (1 / 100)) 2" for y :: rat
    by (rule py_round_ge) simp
  then show ?thesis
    by (simp add: calculate_position_size_eq)
qed

lemma calculate_position_size_spec:
  assumes "max_size p = of_int k / 100" and "1 \<le> k"
  shows "calculate_position_size p b = spec_position_size p b"
proof -
  have "py_round (max (min x (of_int k / 10 ^ 2)) (of_int 1 / 10 ^ 2)) 2 =
        max (of_int 1 / 10 ^ 2) (min (of_int k / 10 ^ 2) (py_round x 2))" for x
    by (rule py_round_clamp) (rule assms(2))
  then show ?thesis
    unfolding calculate_position_size_eq spec_position_size_def assms(1) by simp
qed

lemma spec_position_size_le:
  assumes "max_size p = of_int k / 100" and "1 \<le> k"
  shows "spec_position_size p b \<le> max_size p"
proof -
  have "(1::rat) / 100 \<le> of_int k / 100" using assms(2) by simp
  then show ?thesis using assms(1) by (simp add: spec_position_size_def)
qed

text \<open>
  Claim C3, as amended. \<^verbatim>\<open>calculate_position_size\<close> returns the fixed minimum \<open>0.01\<close>
  when the ATR, the account value or the stop distance is not positive, and otherwise
  \<open>round(max(min(risk_amount / stop_distance, max_position_size), 0.01), 2)\<close>: the clamp
  comes first and the rounding last. The result is never below \<open>0.01\<close>. When
  \<open>max_position_size\<close> is a whole multiple of \<open>0.01\<close> and at least \<open>0.01\<close>, the result
  equals the specification's clamp of the rounded size and does not exceed
  \<open>max_position_size\<close>.
\<close>

theorem calculate_position_size_rounds_after_clamp:
  "calculate_position_size p b =
     (if atr b \<le> 0 \<or> broker_value b \<le> 0 \<or> atr b * atr_stop_mult p \<le> 0 then 1 / 100
      else py_round
             (max (min (broker_value b * (risk_pct p / 100) / (atr b * atr_stop_mult p))
                     (max_size p))
                (1 / 100)) 2) \<and>
   1 / 100 \<le> calculate_position_size p b \<and>
   (max_size p = of_int k / 100 \<and> 1 \<le> k \<longrightarrow>
      calculate_position_size p b = spec_position_size p b \<and>
      calculate_position_size p b \<le> max_size p)"
proof -
  have "calculate_position_size p b = spec_position_size p b \<and>
        calculate_position_size p b \<le> max_size p"
    if "max_size p = of_int k / 100" "1 \<le> k"
    using calculate_position_size_spec [OF that] spec_position_size_le [OF that] by simp
  then show ?thesis
    using calculate_position_size_eq [of p b] calculate_position_size_ge [of p b] by blast
qed

text \<open>
  Scenario A witnesses the theorem: an account of 10000, 1 percent risk, an ATR of 0.5, a
  stop multiplier of 1.5 and a cap of 2.0 (200 hundredths) give a size of 2.0.
\<close>

theorem calculate_position_size_scenario_a:
  "max_size ex_params = of_int 200 / 100 \<and> (1::int) \<le> 200 \<and>
   calculate_position_size ex_params ex_bar = 2 \<and>
   spec_position_size ex_params ex_bar = 2 \<and>
   calculate_position_size ex_params ex_bar \<le> max_size ex_params"
proof -
  have m: "max_size ex_params = of_int 200 / 100" by (simp add: ex_params_def)
  have v: "spec_position_size ex_params ex_bar = 2"
    by (simp add: spec_position_size_def ex_params_def ex_bar_def py_round_def
        round_half_even_def Let_def)
  show ?thesis
    using calculate_position_size_rounds_after_clamp [of ex_params ex_bar 200] m v by simp
qed

text \<open>
  Claim C3 as stated fails when the cap is not a multiple of \<open>0.01\<close>: with a cap of
  \<open>0.018\<close> the clamped size \<open>0.018\<close> is rounded up to \<open>0.02\<close>, which is above the cap and is
  not the specification's value \<open>0.018\<close>.
\<close>

theorem calculate_position_size_exceeds_cap:
  "0 < atr ex_bar \<and> 0 < broker_value ex_bar \<and>
   calculate_position_size (ex_params\<lparr>max_size := 9 / 500\<rparr>) ex_bar = 1 / 50 \<and>
   spec_position_size (ex_params\<lparr>max_size := 9 / 500\<rparr>) ex_bar = 9 / 500 \<and>
   max_size (ex_params\<lparr>max_size := 9 / 500\<rparr>) <
     calculate_position_size (ex_params\<lparr>max_size := 9 / 500\<rparr>) ex_bar"
  by code_simp

text \<open>The 1-minute engine sizes the same way and rounds to three digits.\<close>

lemma calculate_position_size_1m_eq:
  "calculate_position_size_1m q b =
     (if atr b \<le> 0 \<or> broker_value b \<le> 0 \<or> atr b * atr_stop_multiplier q \<le> 0 then 1 / 100
      else py_round
             (max (min (broker_value b * (risk_per_trade q / 100) /
                        (atr b * atr_stop_multiplier q))
                     (max_position_size q))
                (1 / 100)) 3)"
  by (auto simp add: calculate_position_size_1m_def Let_def)

lemma calculate_position_size_1m_ge: "1 / 100 \<le> calculate_position_size_1m q b"
proof -
  have "of_int 10 / 10 ^ 3 \<le> py_round (max y (1 / 100)) 3" for y :: rat
    by (rule py_round_ge) simp
  then show ?thesis
    by (simp add: calculate_position_size_1m_eq)
qed

section \<open>The daily reset (claim C8)\<close>

lemma reset_same_date:
  "last_trade_date s = Some (cur_date b) \<Longrightarrow> reset_daily_stats b s = s"
  by (simp add: reset_daily_stats_def Let_def)

lemma reset_new_date:
  "last_trade_date s \<noteq> Some (cur_date b) \<Longrightarrow>
   reset_daily_stats b s =
     s\<lparr>daily_pnl := 0, daily_trades := 0,
       daily_starting_cash := Some (broker_value b),
       last_trade_date := Some (cur_date b)\<rparr>"
  by (simp add: reset_daily_stats_def Let_def)

lemma reset_last_date: "last_trade_date (reset_daily_stats b s) = Some (cur_date b)"
  by (simp add: reset_daily_stats_def Let_def)

text \<open>
  Claim C8. \<^verbatim>\<open>reset_daily_stats\<close> leaves the strategy unchanged when
  \<open>last_trade_date\<close> is the bar's date. When the date differs it zeroes \<open>daily_pnl\<close> and
  \<open>daily_trades\<close>, takes the account value as \<open>daily_starting_cash\<close>, and in either
  case leaves \<open>last_trade_date\<close> at the bar's date, so that a further call on a bar of the
  same date changes nothing: the daily fields are reset once per change of date.
\<close>

theorem reset_daily_stats_once_per_date:
  "(last_trade_date s = Some (cur_date b) \<longrightarrow> reset_daily_stats b s = s) \<and>
   (last_trade_date s \<noteq> Some (cur_date b) \<longrightarrow>
      daily_pnl (reset_daily_stats b s) = 0 \<and>
      daily_trades (reset_daily_stats b s) = 0 \<and>
      daily_starting_cash (reset_daily_stats b s) = Some (broker_value b)) \<and>
   last_trade_date (reset_daily_stats b s) = Some (cur_date b) \<and>
   (cur_date b' = cur_date b \<longrightarrow>
      reset_daily_stats b' (reset_daily_stats b s) = reset_daily_stats b s)"
proof -
  have "reset_daily_stats b' (reset_daily_stats b s) = reset_daily_stats b s"
    if "cur_date b' = cur_date b"
    using that reset_same_date [of "reset_daily_stats b s" b'] reset_last_date [of b s]
    by simp
  then show ?thesis
    by (simp add: reset_same_date reset_new_date reset_last_date)
qed

text \<open>On the first day the open position is left alone, on the second day its trade
  count is zeroed, and a second bar of the first day does not reset again.\<close>

theorem reset_daily_stats_witness:
  "last_trade_date ex_long = Some (cur_date ex_bar) \<and>
   reset_daily_stats ex_bar ex_long = ex_long \<and>
   last_trade_date ex_long \<noteq> Some (cur_date (ex_bar\<lparr>cur_date := 2\<rparr>)) \<and>
   daily_trades ex_long = 1 \<and>
   daily_pnl (reset_daily_stats (ex_bar\<lparr>cur_date := 2\<rparr>) ex_long) = 0 \<and>
   daily_trades (reset_daily_stats (ex_bar\<lparr>cur_date := 2\<rparr>) ex_long) = 0 \<and>
   daily_starting_cash (reset_daily_stats (ex_bar\<lparr>cur_date := 2\<rparr>) ex_long) = Some 10000 \<and>
   cur_date ex_bar_jump = cur_date ex_bar \<and>
   reset_daily_stats ex_bar_jump (reset_daily_stats ex_bar ex_strategy) =
     reset_daily_stats ex_bar ex_strategy"
proof -
  have a: "last_trade_date ex_long = Some (cur_date ex_bar)"
    by (simp add: ex_long_def ex_bar_def)
  have b: "last_trade_date ex_long \<noteq> Some (cur_date (ex_bar\<lparr>cur_date := 2\<rparr>))"
    by (simp add: ex_long_def)
  have c: "cur_date ex_bar_jump = cur_date ex_bar"
    by (simp add: ex_bar_jump_def)
  have d: "daily_trades ex_long = 1" "broker_value (ex_bar\<lparr>cur_date := 2\<rparr>) = 10000"
    by (simp_all add: ex_long_def ex_bar_def)
  show ?thesis
    using reset_daily_stats_once_per_date [of ex_long ex_bar ex_bar]
      reset_daily_stats_once_per_date [of ex_long "ex_bar\<lparr>cur_date := 2\<rparr>" ex_bar]
      reset_daily_stats_once_per_date [of ex_strategy ex_bar ex_bar_jump]
      a b c d
    by simp
qed

text \<open>The 1-minute engine resets in the same way.\<close>

lemma reset_daily_stats_1m_same_date:
  "last_trade_date1 s = Some (cur_date b) \<Longrightarrow> reset_daily_stats_1m b s = s"
  by (simp add: reset_daily_stats_1m_def Let_def)

lemma reset_daily_stats_1m_idem:
  "reset_daily_stats_1m b (reset_daily_stats_1m b s) = reset_daily_stats_1m b s"
  by (simp add: reset_daily_stats_1m_def Let_def)

section \<open>Failures inside the entry filters (claim C9)\<close>

text \<open>
  Claim C9, as amended. When the body of its \<^verbatim>\<open>try\<close> raises, the volume-surge, the
  trend-strength and the MACD-agreement filter (each when it is required) return
  \<open>False\<close>, the value that blocks the entry; the session filter returns \<open>True\<close>, the
  value that lets the entry go on. Each filter returns a truth value in every case, so
  no exception leaves it.
\<close>

theorem filter_failure_polarity:
  "(is_trading_session_try p h = Inl e \<longrightarrow> is_trading_session p h) \<and>
   (req_volume_surge p \<and> check_volume_surge_try p v m = Inl e \<longrightarrow>
      \<not> check_volume_surge p v m) \<and>
   (req_trend p \<and> check_trend_strength_try p c f sl = Inl e \<longrightarrow>
      \<not> check_trend_strength p c f sl) \<and>
   (req_macd p \<and> check_macd_agreement_try d mc sg = Inl e \<longrightarrow>
      \<not> check_macd_agreement p d mc sg)"
  by (simp add: is_trading_session_def check_volume_surge_def check_trend_strength_def
      check_macd_agreement_def)

text \<open>A missing time, a missing volume, a close of zero in the separation ratio and a
  missing MACD line are such failures.\<close>

theorem filter_failure_witness:
  "is_trading_session_try ex_params_strict None = Inl IndexError \<and>
   is_trading_session ex_params_strict None \<and>
   req_volume_surge ex_params_strict \<and>
   check_volume_surge_try ex_params_strict None (Some 10) = Inl IndexError \<and>
   \<not> check_volume_surge ex_params_strict None (Some 10) \<and>
   req_trend ex_params_strict \<and>
   check_trend_strength_try ex_params_strict (Some 0) (Some 100) (Some 99)
     = Inl ZeroDivisionError \<and>
   \<not> check_trend_strength ex_params_strict (Some 0) (Some 100) (Some 99) \<and>
   req_macd ex_params_strict \<and>
   check_macd_agreement_try ''long'' None (Some 0) = Inl IndexError \<and>
   \<not> check_macd_agreement ex_params_strict ''long'' None (Some 0)"
proof -
  have a: "is_trading_session_try ex_params_strict None = Inl IndexError"
    by (simp add: is_trading_session_try_def read_line_def)
  have b: "req_volume_surge ex_params_strict"
    "check_volume_surge_try ex_params_strict None (Some 10) = Inl IndexError"
    by (simp_all add: ex_params_strict_def check_volume_surge_try_def read_line_def)
  have c: "req_trend ex_params_strict"
    "check_trend_strength_try ex_params_strict (Some 0) (Some 100) (Some 99)
       = Inl ZeroDivisionError"
    by (simp_all add: ex_params_strict_def check_trend_strength_try_def read_line_def)
  have d: "req_macd ex_params_strict"
    "check_macd_agreement_try ''long'' None (Some 0) = Inl IndexError"
    by (simp_all add: ex_params_strict_def check_macd_agreement_try_def read_line_def)
  show ?thesis
    using filter_failure_polarity [of ex_params_strict None IndexError None "Some 10"
        "Some 0" "Some 100" "Some 99" "''long''" None "Some 0"]
      filter_failure_polarity [of ex_params_strict None ZeroDivisionError None "Some 10"
        "Some 0" "Some 100" "Some 99" "''long''" None "Some 0"]
      a b c d
    by simp
qed

text \<open>
  Claim C9 as stated fails for the session window: with the low-volume hours avoided, a
  failing read of the time makes \<^verbatim>\<open>is_trading_session\<close> return \<open>True\<close>, although the
  value that blocks an entry is \<open>False\<close> (what it returns at 2 o'clock).
\<close>

theorem session_filter_passes_on_failure:
  "is_trading_session_try ex_params_strict None = Inl IndexError \<and>
   is_trading_session ex_params_strict None \<and>
   \<not> is_trading_session ex_params_strict (Some 2)"
  by (simp add: is_trading_session_def is_trading_session_try_def read_line_def
      ex_params_strict_def ex_params_def)

section \<open>The risk gates (claim C2)\<close>

lemma check_risk_limits_fst: "fst (check_risk_limits p b s) = reset_daily_stats b s"
  by (simp add: check_risk_limits_def Let_def)

lemma check_risk_limits_snd:
  "snd (check_risk_limits p b s) =
     (\<not> daily_loss_hit p (reset_daily_stats b s) \<and>
      \<not> daily_trades_hit p (reset_daily_stats b s) \<and>
      \<not> consec_losses_hit p (reset_daily_stats b s) \<and>
      \<not> cooldown_hit p (reset_daily_stats b s))"
  by (simp add: check_risk_limits_def Let_def)

text \<open>
  The loss test of the source is guarded by \<^verbatim>\<open>daily_starting_cash > 0\<close> and takes the
  absolute value of the quotient. It agrees with the specification's formula whenever
  the equity is positive, and also for any equity when the configured cap is positive.
\<close>

lemma daily_loss_hit_spec:
  assumes "daily_starting_cash s = Some e" and "0 < e \<or> 0 < max_daily_loss p"
  shows "daily_loss_hit p s =
         (daily_pnl s < 0 \<and> max_daily_loss p \<le> \<bar>daily_pnl s\<bar> / e * 100)"
proof (cases "0 < e")
  case True
  then have "\<bar>daily_pnl s / e\<bar> = \<bar>daily_pnl s\<bar> / e" by (simp add: abs_divide)
  then show ?thesis
    using True assms(1) by (auto simp add: daily_loss_hit_def loss_pct_def truthy_def)
next
  case False
  then have m: "0 < max_daily_loss p" using assms(2) by simp
  have "\<bar>daily_pnl s\<bar> / e \<le> 0" using False by (simp add: divide_nonneg_nonpos)
  then have "\<bar>daily_pnl s\<bar> / e * 100 \<le> 0" by (rule mult_nonpos_nonneg) simp
  then have "\<not> max_daily_loss p \<le> \<bar>daily_pnl s\<bar> / e * 100" using m by linarith
  then show ?thesis
    using False assms(1) by (simp add: daily_loss_hit_def)
qed

lemma spec_first_veto_None:
  assumes "daily_starting_cash s = Some e" and "0 < e \<or> 0 < max_daily_loss p"
  shows "(spec_first_veto p s = None) =
         (\<not> daily_loss_hit p s \<and> \<not> daily_trades_hit p s \<and>
          \<not> consec_losses_hit p s \<and> \<not> cooldown_hit p s)"
proof -
  have dl: "(daily_pnl s < 0 \<and>
             max_daily_loss p \<le> \<bar>daily_pnl s\<bar> / the (daily_starting_cash s) * 100) =
            daily_loss_hit p s"
    by (simp only: assms(1) option.sel daily_loss_hit_spec [OF assms])
  show ?thesis
    unfolding spec_first_veto_def dl
    by (simp add: daily_trades_hit_def consec_losses_hit_def cooldown_hit_def)
qed

lemma try_entry_vetoed:
  assumes "\<not> snd (check_risk_limits p b s)"
  shows "snd (try_entry p b s) = []"
    and "max_period p \<le> data_len b \<Longrightarrow> fst (try_entry p b s) = reset_daily_stats b s"
  using assms check_risk_limits_fst [of p b s]
  by (auto simp add: try_entry_def Let_def split: prod.splits)

lemma next_bar_flat:
  "order s = None \<Longrightarrow> position_size b = 0 \<Longrightarrow> next_bar p b s = try_entry p b (count_bar s)"
  by (simp add: next_bar_def count_bar_def Let_def)

text \<open>
  Claim C2. \<^verbatim>\<open>check_risk_limits\<close> first applies the date rollover and then, on the
  state after the rollover, allows trading exactly when none of the four gates of the
  specification vetoes (daily loss cap, trade-count cap, consecutive-loss cap, post-loss
  cooldown, tried in this order). On a veto the entry logic submits no order and, past
  the minimum-data check, leaves exactly the rolled-over state: no signal rule has set a
  stop, a target or an order. The same holds for \<^verbatim>\<open>next\<close> on a flat bar with no
  pending order. The daily starting equity is assumed to be set, and either it or the
  configured loss cap to be positive.
\<close>

theorem risk_gates_in_order:
  assumes "daily_starting_cash (reset_daily_stats b s) = Some e"
    and "0 < e \<or> 0 < max_daily_loss p"
  shows "check_risk_limits p b s =
           (reset_daily_stats b s, spec_first_veto p (reset_daily_stats b s) = None) \<and>
         (spec_first_veto p (reset_daily_stats b s) \<noteq> None \<longrightarrow>
            snd (try_entry p b s) = [] \<and>
            (max_period p \<le> data_len b \<longrightarrow> fst (try_entry p b s) = reset_daily_stats b s) \<and>
            (\<forall>s0. count_bar s0 = s \<and> order s0 = None \<and> position_size b = 0 \<longrightarrow>
                  snd (next_bar p b s0) = []))"
proof -
  have v: "snd (check_risk_limits p b s) = (spec_first_veto p (reset_daily_stats b s) = None)"
    using spec_first_veto_None [OF assms] by (simp add: check_risk_limits_snd)
  have 1: "check_risk_limits p b s =
           (reset_daily_stats b s, spec_first_veto p (reset_daily_stats b s) = None)"
    using v check_risk_limits_fst [of p b s] by (simp add: prod_eq_iff)
  have 2: "snd (try_entry p b s) = [] \<and>
           (max_period p \<le> data_len b \<longrightarrow> fst (try_entry p b s) = reset_daily_stats b s) \<and>
           (\<forall>s0. count_bar s0 = s \<and> order s0 = None \<and> position_size b = 0 \<longrightarrow>
                 snd (next_bar p b s0) = [])"
    if "spec_first_veto p (reset_daily_stats b s) \<noteq> None"
  proof -
    from that v have n: "\<not> snd (check_risk_limits p b s)" by simp
    show ?thesis
      using try_entry_vetoed [OF n] by (auto simp add: next_bar_flat)
  qed
  show ?thesis using 1 2 by blast
qed

lemma ex_long_signal: "long_signal ex_params ex_bar_long_signal"
  by (simp add: long_signal_def ex_params_def ex_bar_long_signal_def ex_bar_def
      check_macd_agreement_def Let_def)

text \<open>With three consecutive losses and the default cap of three, a bar with a valid long
  signal is vetoed by the consecutive-loss gate and no order is submitted.\<close>

theorem risk_gates_witness:
  "daily_starting_cash (reset_daily_stats ex_bar_long_signal
      (ex_strategy\<lparr>consecutive_losses := 3\<rparr>)) = Some 10000 \<and>
   ((0::rat) < 10000 \<or> 0 < max_daily_loss ex_params) \<and>
   long_signal ex_params ex_bar_long_signal \<and>
   spec_first_veto ex_params (reset_daily_stats ex_bar_long_signal
      (ex_strategy\<lparr>consecutive_losses := 3\<rparr>)) = Some LossStreakCap \<and>
   \<not> snd (check_risk_limits ex_params ex_bar_long_signal
      (ex_strategy\<lparr>consecutive_losses := 3\<rparr>)) \<and>
   snd (try_entry ex_params ex_bar_long_signal (ex_strategy\<lparr>consecutive_losses := 3\<rparr>)) = []"
proof -
  have c: "daily_starting_cash (reset_daily_stats ex_bar_long_signal
      (ex_strategy\<lparr>consecutive_losses := 3\<rparr>)) = Some 10000"
    by (simp add: reset_daily_stats_def ex_strategy_def ex_bar_long_signal_def ex_bar_def Let_def)
  have v: "spec_first_veto ex_params (reset_daily_stats ex_bar_long_signal
      (ex_strategy\<lparr>consecutive_losses := 3\<rparr>)) = Some LossStreakCap"
    by (simp add: spec_first_veto_def reset_daily_stats_def ex_strategy_def
        ex_bar_long_signal_def ex_bar_def ex_params_def Let_def)
  have d: "(0::rat) < 10000 \<or> 0 < max_daily_loss ex_params" by simp
  show ?thesis
    using risk_gates_in_order [OF c d] v c ex_long_signal by simp
qed

section \<open>Long before short (claim C5)\<close>

text \<open>
  Claim C5. When the long flag is set, the trade-execution block opens a long position
  only, whatever the short flag is: it sets the long stop, target and partial target,
  and submits one buy order. In particular a bar whose long rules hold ends with exactly
  that buy order.
\<close>

theorem long_takes_precedence:
  "execute_trades p b True short_sig s =
     (s\<lparr>stop_loss := Some (close_px b - atr b * atr_stop_mult p),
        take_profit := Some (close_px b + atr b * atr_target_mult p),
        partial_target := Some (close_px b + atr b * partial_target_mult p),
        order := Some (Buy (calculate_position_size p b)),
        highest_price := Some (close_px b)\<rparr>,
      [Buy (calculate_position_size p b)]) \<and>
   (long_signal p b \<longrightarrow>
      snd (execute_trades p b (long_signal p b) (short_signal p b) s) =
        [Buy (calculate_position_size p b)])"
  by (simp add: execute_trades_def submit_def Let_def)

text \<open>With both flags set, the default parameters buy two lots with the stop below
  the close.\<close>

theorem long_takes_precedence_witness:
  "snd (execute_trades ex_params ex_bar_long_signal True True ex_strategy) = [Buy 2] \<and>
   stop_loss (fst (execute_trades ex_params ex_bar_long_signal True True ex_strategy))
     = Some (401 / 4) \<and>
   long_signal ex_params ex_bar_long_signal \<and>
   snd (execute_trades ex_params ex_bar_long_signal (long_signal ex_params ex_bar_long_signal)
         (short_signal ex_params ex_bar_long_signal) ex_strategy) = [Buy 2]"
proof -
  have sz: "calculate_position_size ex_params ex_bar_long_signal = 2"
    by code_simp
  have v: "close_px ex_bar_long_signal - atr ex_bar_long_signal * atr_stop_mult ex_params
           = 401 / 4"
    by (simp add: ex_bar_long_signal_def ex_bar_def ex_params_def)
  show ?thesis
    using long_takes_precedence [of ex_params ex_bar_long_signal True ex_strategy]
      sz v ex_long_signal
    by simp
qed

text \<open>In this engine the two rule sets never hold on the same bar: every long rule needs
  the RSI above the midline and every short rule needs it below.\<close>

lemma signals_exclusive: "\<not> (long_signal p b \<and> short_signal p b)"
  by (auto simp add: long_signal_def short_signal_def Let_def)

section \<open>The stop only improves (claim C4)\<close>

text \<open>In the v2 engine the stop of an open position is written by the trailing-stop block
  alone, and only with a better value.\<close>

lemma trail_stop_long_stop:
  "stop_at_least st s \<Longrightarrow> stop_at_least st (trail_stop_long p b w s)"
  by (auto simp add: trail_stop_long_def stop_at_least_def Let_def split: option.splits)

lemma trail_stop_short_stop:
  "stop_at_most st s \<Longrightarrow> stop_at_most st (trail_stop_short p b w s)"
  by (auto simp add: trail_stop_short_def stop_at_most_def Let_def split: option.splits)

lemma update_trailing_stop_long:
  assumes "0 < position_size b" and "stop_at_least st s"
  shows "stop_at_least st (update_trailing_stop p b s)"
proof -
  have k: "stop_at_least st (s\<lparr>highest_price := h\<rparr>)"
          "stop_at_least st (s\<lparr>highest_price := h, trailing_active := True\<rparr>)" for h
    using assms(2) by (simp_all add: stop_at_least_def)
  show ?thesis
    using assms k
    by (auto simp add: update_trailing_stop_def Let_def intro!: trail_stop_long_stop)
qed

lemma update_trailing_stop_short:
  assumes "position_size b < 0" and "stop_at_most st s"
  shows "stop_at_most st (update_trailing_stop p b s)"
proof -
  have k: "stop_at_most st (s\<lparr>lowest_price := h\<rparr>)"
          "stop_at_most st (s\<lparr>lowest_price := h, trailing_active := True\<rparr>)" for h
    using assms(2) by (simp_all add: stop_at_most_def)
  show ?thesis
    using assms k
    by (auto simp add: update_trailing_stop_def Let_def intro!: trail_stop_short_stop)
qed

lemma check_partial_profit_stop:
  "stop_loss (fst (check_partial_profit p b r)) = stop_loss (fst r)"
  by (simp add: check_partial_profit_def submit_def Let_def split: option.splits)

lemma manage_position_stop:
  "stop_loss (fst (manage_position p b s)) = stop_loss (update_trailing_stop p b s)"
  by (simp add: manage_position_def submit_def Let_def check_partial_profit_stop)

lemma count_bar_stop: "stop_loss (count_bar s) = stop_loss s"
  by (simp add: count_bar_def)

lemma next_bar_stop_long:
  assumes "0 < position_size b" and "stop_at_least st s"
  shows "stop_at_least st (fst (next_bar p b s))"
proof -
  have c: "stop_at_least st (count_bar s)"
    using assms(2) by (simp add: stop_at_least_def count_bar_stop)
  have "stop_at_least st (fst (manage_position p b (count_bar s)))"
    using update_trailing_stop_long [OF assms(1) c, of p]
    by (simp add: stop_at_least_def manage_position_stop)
  then show ?thesis
    using assms(1) c by (simp add: next_bar_def Let_def)
qed

lemma next_bar_stop_short:
  assumes "position_size b < 0" and "stop_at_most st s"
  shows "stop_at_most st (fst (next_bar p b s))"
proof -
  have c: "stop_at_most st (count_bar s)"
    using assms(2) by (simp add: stop_at_most_def count_bar_stop)
  have "stop_at_most st (fst (manage_position p b (count_bar s)))"
    using update_trailing_stop_short [OF assms(1) c, of p]
    by (simp add: stop_at_most_def manage_position_stop)
  then show ?thesis
    using assms(1) c by (simp add: next_bar_def Let_def)
qed

lemma notify_order_stop:
  "position_now n \<noteq> 0 \<Longrightarrow> stop_loss (notify_order n s) = stop_loss s"
  by (simp add: notify_order_def on_entry_fill_def on_closing_fill_def Let_def)

lemma notify_order_stop_long:
  "0 < position_now n \<Longrightarrow> stop_at_least st s \<Longrightarrow> stop_at_least st (notify_order n s)"
  by (simp add: stop_at_least_def notify_order_stop)

lemma notify_order_stop_short:
  "position_now n < 0 \<Longrightarrow> stop_at_most st s \<Longrightarrow> stop_at_most st (notify_order n s)"
  by (simp add: stop_at_most_def notify_order_stop)

lemma step_stop_long:
  "0 < shown_position ev \<Longrightarrow> stop_at_least st s \<Longrightarrow> stop_at_least st (step p ev s)"
  by (cases ev) (simp_all add: next_bar_stop_long notify_order_stop_long)

lemma step_stop_short:
  "shown_position ev < 0 \<Longrightarrow> stop_at_most st s \<Longrightarrow> stop_at_most st (step p ev s)"
  by (cases ev) (simp_all add: next_bar_stop_short notify_order_stop_short)

lemma run_events_stop_long:
  "\<forall>ev\<in>set evs. 0 < shown_position ev \<Longrightarrow> stop_at_least st s \<Longrightarrow>
   stop_at_least st (run_events p evs s)"
  unfolding run_events_def
  by (induction evs arbitrary: s) (simp_all add: step_stop_long)

lemma run_events_stop_short:
  "\<forall>ev\<in>set evs. shown_position ev < 0 \<Longrightarrow> stop_at_most st s \<Longrightarrow>
   stop_at_most st (run_events p evs s)"
  unfolding run_events_def
  by (induction evs arbitrary: s) (simp_all add: step_stop_short)

text \<open>
  Claim C4, as amended. In the v2 engine, over any sequence of bars and order
  notifications during which the broker shows a long position, the stop stays set and
  never falls below a level it has reached; for a short position it never rises above
  it. This holds before and after the trailing stop is activated: the candidate computed
  from the watermark is applied only if it improves on the current stop, and this engine
  has no other stop adjustment. The 1-minute engine applies its watermark candidate in the
  same way, but its breakeven move assigns the stop without comparing.
\<close>

theorem stop_loss_only_improves:
  "(stop_loss s = Some st \<and> (\<forall>ev\<in>set evs. 0 < shown_position ev) \<longrightarrow>
      stop_at_least st (run_events p evs s)) \<and>
   (stop_loss s = Some st \<and> (\<forall>ev\<in>set evs. shown_position ev < 0) \<longrightarrow>
      stop_at_most st (run_events p evs s))"
  using run_events_stop_long [of evs st s p] run_events_stop_short [of evs st s p]
  by (simp add: stop_at_least_def stop_at_most_def)

text \<open>Scenario B: from a stop at 97, the bar at 102 activates the trailing stop and
  moves the stop to 100.4; the next bar at 101.5 leaves it there.\<close>

theorem stop_loss_scenario_b:
  "stop_loss ex_long_b = Some 97 \<and>
   0 < shown_position (BarEvent ex_bar_c) \<and> 0 < shown_position (BarEvent ex_bar_a) \<and>
   stop_loss (run_events ex_params [BarEvent ex_bar_c] ex_long_b) = Some (502 / 5) \<and>
   trailing_active (run_events ex_params [BarEvent ex_bar_c] ex_long_b) \<and>
   stop_loss (run_events ex_params [BarEvent ex_bar_c, BarEvent ex_bar_a] ex_long_b)
     = Some (502 / 5) \<and>
   stop_at_least 97 (run_events ex_params [BarEvent ex_bar_c, BarEvent ex_bar_a] ex_long_b)"
proof -
  have a: "stop_loss ex_long_b = Some 97" by (simp add: ex_long_b_def)
  have b: "\<forall>ev\<in>set [BarEvent ex_bar_c, BarEvent ex_bar_a]. 0 < shown_position ev"
    by (simp add: ex_bar_c_def ex_bar_a_def)
  have c: "stop_loss (run_events ex_params [BarEvent ex_bar_c] ex_long_b) = Some (502 / 5)"
    by code_simp
  have d: "trailing_active (run_events ex_params [BarEvent ex_bar_c] ex_long_b)"
    by code_simp
  have e: "stop_loss (run_events ex_params [BarEvent ex_bar_c, BarEvent ex_bar_a] ex_long_b)
           = Some (502 / 5)"
    by code_simp
  show ?thesis
    using stop_loss_only_improves
            [of ex_long_b 97 "[BarEvent ex_bar_c, BarEvent ex_bar_a]" ex_params]
      a b c d e
    by simp
qed

text \<open>
  Claim C4 as stated fails in the 1-minute engine with its default parameters. A long
  position entered at 100: the bar at 101.5 (ATR 2) changes nothing; the bar at 100.5
  (ATR 1) activates the trailing stop from the watermark 101.5 and sets the stop to
  100.3; the bar at 102 (ATR 2) makes the breakeven move, which sets the stop to
  \<open>100 + 0.1 * 2 = 100.2\<close>, below the trailed stop, and the new candidate 99.6 does not
  repair it.
\<close>

theorem breakeven_lowers_trailed_stop:
  "0 < position_size ex_bar_a \<and> 0 < position_size ex_bar_b \<and> 0 < position_size ex_bar_c \<and>
   trailing_active1 ex_long_1m_b \<and> stop_loss1 ex_long_1m_b = Some (1003 / 10) \<and>
   trailing_active1 ex_long_1m_c \<and> stop_loss1 ex_long_1m_c = Some (501 / 5) \<and>
   breakeven_moved1 ex_long_1m_c \<and> \<not> breakeven_moved1 ex_long_1m_b"
  by code_simp

text \<open>The trailing step of the 1-minute engine, taken alone, only improves the stop.\<close>

lemma trailing_long_only_improves:
  assumes "stop_loss1 s = Some st" and "trailing_long q b s = Inr s'"
  shows "\<exists>st'. stop_loss1 s' = Some st' \<and> st \<le> st'"
  using assms
  by (auto simp add: trailing_long_def Let_def split: if_splits)

lemma trailing_short_only_improves:
  assumes "stop_loss1 s = Some st" and "trailing_short q b s = Inr s'"
  shows "\<exists>st'. stop_loss1 s' = Some st' \<and> st' \<le> st"
  using assms
  by (auto simp add: trailing_short_def Let_def split: if_splits)

text \<open>
  The same happens with a constant ATR when the breakeven move and the partial exit are
  configured at 2 ATR: the bar at 103 trails the stop to 102; on the bar at 104 the
  breakeven move sets it to 100.2 and the partial exit returns before the trailing step
  can raise it again.
\<close>

lemma breakeven_lowers_trailed_stop_constant_atr:
  "trailing_active1 (fst (update_stop_and_target ex_params_1m_late ex_bar_d ex_long_1m)) \<and>
   stop_loss1 (fst (update_stop_and_target ex_params_1m_late ex_bar_d ex_long_1m))
     = Some 102 \<and>
   update_stop_and_target ex_params_1m_late ex_bar_e
     (fst (update_stop_and_target ex_params_1m_late ex_bar_d ex_long_1m)) =
     (ex_long_1m\<lparr>order1 := Some (Sell (1 / 2)), stop_loss1 := Some (501 / 5),
        breakeven_moved1 := True, partial_exit_done1 := True, trailing_active1 := True,
        highest_price1 := Some 104\<rparr>,
      [Sell (1 / 2)])"
  by code_simp

section \<open>Orders per bar (claim C1)\<close>

text \<open>
  Claim C1 against the v2 engine. \<^verbatim>\<open>check_partial_profit\<close> submits the partial
  close and returns to \<^verbatim>\<open>next\<close>, which goes on to the stop-loss and take-profit
  checks without looking at \<^verbatim>\<open>self.order\<close>. With a long position of one lot entered
  at 100 (partial target 101.5, take-profit 102.5) and a bar that closes at 103, the
  engine submits a partial sell of half a lot and a full close in the same bar.
\<close>

theorem partial_and_full_close_in_one_bar:
  "order ex_long = None \<and> position_size ex_bar_jump = 1 \<and>
   next_bar ex_params ex_bar_jump ex_long =
     (ex_long\<lparr>order := Some Close, stop_loss := Some (511 / 5),
        position_closed_partial := True, bars_since_trade := 1,
        highest_price := Some 103, trailing_active := True\<rparr>,
      [Sell (1 / 2), Close])"
  by code_simp

text \<open>The 1-minute engine returns right after its partial exit, so that
  \<^verbatim>\<open>update_stop_and_target\<close> submits at most one order per bar.\<close>

lemma exits_long_orders: "length (snd (exits_long b s)) \<le> Suc 0"
  by (simp add: exits_long_def)

lemma exits_short_orders: "length (snd (exits_short b s)) \<le> Suc 0"
  by (simp add: exits_short_def)

lemma long_steps_one_order: "length (snd (long_steps q b s)) \<le> Suc 0"
  unfolding long_steps_def
  by (simp add: exits_long_orders split: sum.split prod.split option.split)

lemma short_steps_one_order: "length (snd (short_steps q b s)) \<le> Suc 0"
  unfolding short_steps_def
  by (simp add: exits_short_orders split: sum.split prod.split option.split)

lemma update_stop_and_target_one_order:
  "length (snd (update_stop_and_target q b s)) \<le> 1"
  by (simp add: update_stop_and_target_def Let_def long_steps_one_order
      short_steps_one_order)

lemma partial_exit_long_returns:
  "partial_exit_long q b s = Inr (s', Some oi) \<Longrightarrow>
   s' = s\<lparr>order1 := Some oi, partial_exit_done1 := True\<rparr>"
  by (auto simp add: partial_exit_long_def Let_def split: if_splits)

section \<open>Bookkeeping on fills (claims C6, C7 and C10)\<close>

text \<open>
  A completed sell that finds an entry price is booked as a close: its \<^verbatim>\<open>pnl\<close> goes
  into \<open>daily_pnl\<close> and moves the loss streak, for a partial close as for a full one, and
  a full close clears the position state. A completed buy is never booked as a close.
\<close>

lemma closing_sell_updates_counters:
  assumes "status n = Completed" and "\<not> isbuy n" and "truthy (entry_price s)"
  shows "daily_pnl (notify_order n s) = daily_pnl s + closing_pnl n s"
    and "consecutive_losses (notify_order n s) =
           (if closing_pnl n s < 0 then consecutive_losses s + 1 else 0)"
  using assms
  by (simp_all add: notify_order_def on_closing_fill_def reset_position_def Let_def)

lemma buy_fill_never_updates_counters:
  assumes "isbuy n"
  shows "daily_pnl (notify_order n s) = daily_pnl s"
    and "consecutive_losses (notify_order n s) = consecutive_losses s"
  using assms
  by (simp_all add: notify_order_def on_entry_fill_def Let_def)

lemma full_close_sell_resets:
  assumes "status n = Completed" and "\<not> isbuy n" and "truthy (entry_price s)"
    and "position_now n = 0"
  shows "entry_price (notify_order n s) = None \<and> stop_loss (notify_order n s) = None \<and>
         take_profit (notify_order n s) = None \<and> partial_target (notify_order n s) = None \<and>
         highest_price (notify_order n s) = None \<and> lowest_price (notify_order n s) = None \<and>
         \<not> trailing_active (notify_order n s) \<and>
         \<not> position_closed_partial (notify_order n s) \<and> order (notify_order n s) = None"
  using assms
  by (simp add: notify_order_def on_closing_fill_def reset_position_def Let_def)

lemma partial_close_sell_keeps_position:
  assumes "status n = Completed" and "\<not> isbuy n" and "truthy (entry_price s)"
    and "position_now n \<noteq> 0"
  shows "entry_price (notify_order n s) = entry_price s \<and>
         stop_loss (notify_order n s) = stop_loss s \<and>
         position_closed_partial (notify_order n s) = position_closed_partial s"
  using assms
  by (simp add: notify_order_def on_closing_fill_def Let_def)

text \<open>
  On a full close the broker already shows no position, so that the test
  \<^verbatim>\<open>self.position.size > 0\<close> fails and the \<^verbatim>\<open>pnl\<close> of a long position is computed by
  the formula for a short one: it is the negative of what the long position realized.
\<close>

lemma full_close_pnl_sign:
  assumes "position_now n = 0" and "entry_price s = Some e"
  shows "closing_pnl n s = - ((executed_price n - e) * \<bar>executed_size n\<bar>)"
  using assms by (simp add: closing_pnl_def algebra_simps)

text \<open>The bar counter stops at 100, an entry fill sets it to zero, and a loss streak at
  the cap vetoes every entry.\<close>

lemma count_bar_saturates:
  "bars_since_trade (count_bar s) =
     (if bars_since_trade s < 100 then bars_since_trade s + 1 else bars_since_trade s)"
  and "bars_since_trade s \<le> 100 \<Longrightarrow> bars_since_trade (count_bar s) \<le> 100"
  by (simp_all add: count_bar_def)

lemma entry_fill_resets_bars:
  assumes "status n = Completed" and "\<not> truthy (entry_price s)"
  shows "bars_since_trade (notify_order n s) = 0"
  using assms by (simp add: notify_order_def on_entry_fill_def Let_def)

lemma loss_streak_vetoes_entry:
  assumes "max_consec_losses p \<le> consecutive_losses s"
  shows "snd (try_entry p b s) = []"
proof -
  have "consecutive_losses (reset_daily_stats b s) = consecutive_losses s"
    by (simp add: reset_daily_stats_def Let_def)
  then have "\<not> snd (check_risk_limits p b s)"
    using assms by (simp add: check_risk_limits_snd consec_losses_hit_def)
  then show ?thesis by (rule try_entry_vetoed(1))
qed

text \<open>
  Claim C6 against the v2 engine. After two consecutive losses, a third losing close
  does not bring the streak to three. A short position entered at 100 and closed by a buy
  at 102 leaves the streak at two, because a buy fill is never booked as a close. A long
  position entered at 100 and fully closed by a sell at 98 sets the streak to zero,
  because the loss is booked with the opposite sign. In both cases the risk gates then
  allow the next entry.
\<close>

theorem losing_closes_do_not_advance_streak:
  "consecutive_losses
     (notify_order ex_buy_to_close
        (ex_short\<lparr>order := Some Close, consecutive_losses := 2, bars_since_trade := 10\<rparr>))
     = 2 \<and>
   consecutive_losses
     (notify_order ex_sell_to_close
        (ex_long\<lparr>order := Some Close, consecutive_losses := 2, bars_since_trade := 10\<rparr>))
     = 0 \<and>
   snd (check_risk_limits ex_params ex_bar
     (notify_order ex_buy_to_close
        (ex_short\<lparr>order := Some Close, consecutive_losses := 2, bars_since_trade := 10\<rparr>))) \<and>
   snd (check_risk_limits ex_params ex_bar
     (notify_order ex_sell_to_close
        (ex_long\<lparr>order := Some Close, consecutive_losses := 2, bars_since_trade := 10\<rparr>)))"
  by code_simp

text \<open>
  Claim C7 against the v2 engine. The full close of the short position (a buy at 102, a
  loss of 2) changes nothing but the pending order: no profit or loss is added to
  \<open>daily_pnl\<close> and the entry price, stop, target and watermark of the closed position
  stay in place. The full close of the long position at 98 (a loss of 2) resets the
  position but adds \<open>+2\<close> to \<open>daily_pnl\<close>.
\<close>

theorem short_close_is_not_booked:
  "notify_order ex_buy_to_close (ex_short\<lparr>order := Some Close\<rparr>) = ex_short \<and>
   entry_price ex_short = Some 100 \<and> daily_pnl ex_short = 0 \<and>
   notify_order ex_sell_to_close (ex_long\<lparr>order := Some Close\<rparr>) =
     ex_strategy\<lparr>daily_trades := 1, last_trade_date := Some 1, daily_pnl := 2\<rparr>"
  by code_simp

text \<open>
  Claim C10 against the v2 engine. The partial close of the short position, a buy of half
  a lot at 98 that realizes a profit of 1, is not booked: \<open>daily_pnl\<close> stays at zero and
  the loss streak stays at two instead of being cleared.
\<close>

theorem short_partial_close_is_not_booked:
  "notify_order ex_buy_partial
     (ex_short\<lparr>order := Some (Buy (1 / 2)), position_closed_partial := True,
        consecutive_losses := 2\<rparr>) =
   ex_short\<lparr>position_closed_partial := True, consecutive_losses := 2\<rparr>"
  by code_simp

text \<open>A partial sell of half a lot at 99 on the long position entered at 100 is booked at
  once: \<open>daily_pnl\<close> loses 0.5 and the streak advances, while the position stays open.\<close>

lemma long_partial_close_is_booked:
  "notify_order ex_sell_partial
     (ex_long\<lparr>order := Some (Sell (1 / 2)), position_closed_partial := True\<rparr>) =
   ex_long\<lparr>position_closed_partial := True, daily_pnl := - 1 / 2,
     consecutive_losses := 1\<rparr>"
  by code_simp

end
